theory Spec2Isabelle
  imports Main
begin

section \<open>Python values and library functions used by main.py\<close>

text \<open>
  Strings are byte lists (\<open>string\<close>); non-ASCII characters of the source's literals are
  written as their UTF-8 bytes. Time stamps and time differences are integers counting
  microseconds, the resolution of Python's \<open>datetime\<close> and \<open>timedelta\<close>.
\<close>

text \<open>A decoded JSON value (\<open>resp.json()\<close>); JSON numbers are taken to be integers.
  A dictionary is an association list holding each key once.\<close>

datatype json =
    JNull
  | JBool bool
  | JInt int
  | JStr string
  | JList "json list"
  | JDict "(string \<times> json) list"

text \<open>Exceptions (instances of Python's \<open>Exception\<close>). \<open>Raised msg\<close> is an exception
  raised inside a library call (network, JSON decoding, the completion endpoint), with
  \<open>str(e) = msg\<close>; the others are raised by the interpreter on the values named.\<close>

datatype exn =
    Raised string
  | AttributeError json string
  | TypeError json json
  | IndexError

fun type_name :: "json \<Rightarrow> string" where
  "type_name JNull = ''NoneType''"
| "type_name (JBool _) = ''bool''"
| "type_name (JInt _) = ''int''"
| "type_name (JStr _) = ''str''"
| "type_name (JList _) = ''list''"
| "type_name (JDict _) = ''dict''"

text \<open>\<open>str(e)\<close>\<close>

fun str_exn :: "exn \<Rightarrow> string" where
  "str_exn (Raised msg) = msg"
| "str_exn (AttributeError v a) =
     [CHR 0x27] @ type_name v @ [CHR 0x27] @ '' object has no attribute '' @
     [CHR 0x27] @ a @ [CHR 0x27]"
| "str_exn (TypeError a b) =
     [CHR 0x27] @ ''<'' @ [CHR 0x27] @ '' not supported between instances of '' @
     [CHR 0x27] @ type_name a @ [CHR 0x27] @ '' and '' @ [CHR 0x27] @ type_name b @ [CHR 0x27]"
| "str_exn IndexError = ''list index out of range''"

text \<open>\<open>s.startswith(prefixes)\<close> with a tuple of prefixes\<close>

definition startswith :: "string \<Rightarrow> string list \<Rightarrow> bool" where
  "startswith s prefixes = list_ex (\<lambda>p. take (length p) s = p) prefixes"

text \<open>\<open>sep.join(xs)\<close>\<close>

fun join :: "string \<Rightarrow> string list \<Rightarrow> string" where
  "join sep [] = []"
| "join sep [x] = x"
| "join sep (x # y # ys) = x @ sep @ join sep (y # ys)"

text \<open>\<open>timedelta.days\<close>: a \<open>timedelta\<close> is normalised to days, seconds in \<open>[0, 86400)\<close> and
  microseconds in \<open>[0, 10^6)\<close>, so \<open>days\<close> is the floor of the difference over one day.\<close>

definition us_per_day :: int where
  "us_per_day = 86400000000"

definition timedelta_days :: "int \<Rightarrow> int" where
  "timedelta_days delta = delta div us_per_day"

text \<open>\<open>str.lower()\<close>. On a string of ASCII characters it maps \<open>A\<close> to \<open>Z\<close> onto \<open>a\<close> to
  \<open>z\<close> and leaves every other character. On a string with other characters (bytes with
  the top bit set, in UTF-8) it follows the Unicode case mapping, which is left
  uninterpreted: \<open>unicode_lower\<close> stands for \<open>str.lower()\<close> on such strings.\<close>

definition lower_char :: "char \<Rightarrow> char" where
  "lower_char c =
     (case map_of (zip ''ABCDEFGHIJKLMNOPQRSTUVWXYZ'' ''abcdefghijklmnopqrstuvwxyz'') c of
        Some d \<Rightarrow> d
      | None \<Rightarrow> c)"

definition is_ascii :: "char \<Rightarrow> bool" where
  "is_ascii c = (\<not> digit7 c)"

definition lower :: "(string \<Rightarrow> string) \<Rightarrow> string \<Rightarrow> string" where
  "lower unicode_lower s =
     (if list_all is_ascii s then map lower_char s else unicode_lower s)"

section \<open>Data model\<close>

text \<open>A PaperRecord: the dictionary both fetchers build. \<open>title\<close> and \<open>abstract\<close> hold
  whatever the source gave: a string from arXiv, any JSON value from the trending
  endpoint.\<close>

record paper =
  source :: string
  title :: json
  url :: string
  abstract :: json
  authors :: string
  color :: int

text \<open>An \<open>arxiv.Result\<close>, the fields the fetcher reads.\<close>

record arxiv_result =
  entry_id :: string
  published :: int
  primary_category :: string
  result_title :: string
  result_summary :: string
  result_authors :: "string list"

text \<open>What iterating \<open>arxiv_client.results(search)\<close> produces next: a result, together
  with the UTC time \<open>datetime.now(timezone.utc)\<close> shows when the loop body examines it, or
  an exception raised by the generator.\<close>

datatype search_event =
    Yield int arxiv_result
  | Raise exn

text \<open>Lines printed to standard output, one constructor per \<open>print\<close> of the source,
  carrying the values the line interpolates.\<close>

datatype log_line =
    LogFetchingArxiv
  | LogSearching string
  | LogNoRecentPaper string
  | LogArxivModuleError exn
  | LogFetchingHF
  | LogHFFetchFailed exn
  | LogTotal nat
  | LogProcessing json
  | LogAllDone

text \<open>Calls made to the outside: HTTP GET (URL), a chat completion (model, prompt,
  temperature in hundredths) and the webhook POST (URL, embed).\<close>

record embed =
  embed_title :: json
  embed_url :: string
  embed_description :: "string option"
  embed_color :: int
  embed_fields :: "(string \<times> string \<times> bool) list"
  embed_footer :: string

datatype call =
    Get string
  | Completion string string nat
  | Post "string option" embed

text \<open>What the run has done so far: the lines printed and the calls made.\<close>

record world =
  stdout :: "log_line list"
  calls :: "call list"

definition print :: "log_line \<Rightarrow> world \<Rightarrow> world" where
  "print l w = w\<lparr> stdout := stdout w @ [l] \<rparr>"

definition call :: "call \<Rightarrow> world \<Rightarrow> world" where
  "call c w = w\<lparr> calls := calls w @ [c] \<rparr>"

text \<open>An HTTP response: its status code and what \<open>resp.json()\<close> does.\<close>

record response =
  status_code :: int
  json_body :: "exn + json"

text \<open>The environment of a run. The oracles that answer a call or read the clock take the
  calls made before, so that two calls with the same arguments may be answered
  differently. \<open>strftime\<close> is \<open>strftime("%Y-%m-%d")\<close>, \<open>str_of\<close> is \<open>str()\<close> on a
  value that is not a string and \<open>str_lower\<close> is \<open>str.lower()\<close> on a string that is not
  ASCII; the three are library functions left uninterpreted.
  \<open>webhook_url\<close> is the environment variable \<open>DISCORD_WEBHOOK_URL\<close>.\<close>

record env =
  arxiv_search :: "string \<Rightarrow> search_event list"
  local_now :: "call list \<Rightarrow> int"
  strftime :: "int \<Rightarrow> string"
  str_of :: "json \<Rightarrow> string"
  str_lower :: "string \<Rightarrow> string"
  http_get :: "call list \<Rightarrow> string \<Rightarrow> exn + response"
  chat_completion :: "call list \<Rightarrow> string \<Rightarrow> exn + string option list"
  http_post :: "call list \<Rightarrow> string option \<Rightarrow> embed \<Rightarrow> exn option"
  webhook_url :: "string option"

section \<open>Keyword Paper Fetcher: \<open>get_arxiv_papers_by_keywords\<close>\<close>

definition KEYWORDS :: "string list" where
  "KEYWORDS =
     [''Agents'', ''Large Language Models'', ''Vision Language Models'',
      ''LLM Personalization'', ''RAG'', ''Reasoning'', ''Latent Reasoning'']"

record fetch_state =
  collected_papers :: "paper list"
  seen_ids :: "string set"
  fetch_world :: world

definition mk_query :: "string \<Rightarrow> string" where
  "mk_query keyword =
     ''ti:'' @ [CHR 0x22] @ keyword @ [CHR 0x22] @ '' OR abs:'' @ [CHR 0x22] @ keyword @ [CHR 0x22]"

definition arxiv_paper :: "arxiv_result \<Rightarrow> paper" where
  "arxiv_paper r =
     \<lparr> source = ''Arxiv ['' @ primary_category r @ '']'',
       title = JStr (result_title r),
       url = entry_id r,
       abstract = JStr (result_summary r),
       authors = join '', '' (take 3 (result_authors r)) @ '' et al.'',
       color = 16711680 \<rparr>"

text \<open>The inner loop over one keyword's results (lines 56 to 83). The Boolean is
  \<open>found_for_this_keyword\<close>.\<close>

fun scan_results :: "search_event list \<Rightarrow> fetch_state \<Rightarrow> (exn + bool) \<times> fetch_state" where
  "scan_results [] st = (Inr False, st)"
| "scan_results (Raise e # evs) st = (Inl e, st)"
| "scan_results (Yield now r # evs) st =
     (if entry_id r \<in> seen_ids st then scan_results evs st
      else if timedelta_days (now - published r) > 2 then scan_results evs st
      else if \<not> startswith (primary_category r) [''cs'', ''stat''] then scan_results evs st
      else (Inr True,
            st\<lparr> collected_papers := collected_papers st @ [arxiv_paper r],
                seen_ids := insert (entry_id r) (seen_ids st) \<rparr>))"

text \<open>The body of the outer loop for one keyword (lines 41 to 86).\<close>

definition process_keyword ::
  "env \<Rightarrow> string \<Rightarrow> fetch_state \<Rightarrow> exn option \<times> fetch_state" where
  "process_keyword env keyword st =
     (let st1 = st\<lparr> fetch_world := print (LogSearching keyword) (fetch_world st) \<rparr>
      in case scan_results (arxiv_search env (mk_query keyword)) st1 of
           (Inl e, st2) \<Rightarrow> (Some e, st2)
         | (Inr True, st2) \<Rightarrow> (None, st2)
         | (Inr False, st2) \<Rightarrow>
             (None, st2\<lparr> fetch_world := print (LogNoRecentPaper keyword) (fetch_world st2) \<rparr>))"

fun keyword_loop ::
  "env \<Rightarrow> string list \<Rightarrow> fetch_state \<Rightarrow> exn option \<times> fetch_state" where
  "keyword_loop env [] st = (None, st)"
| "keyword_loop env (keyword # keywords) st =
     (case process_keyword env keyword st of
        (Some e, st1) \<Rightarrow> (Some e, st1)
      | (None, st1) \<Rightarrow> keyword_loop env keywords st1)"

definition fetch_init :: "world \<Rightarrow> fetch_state" where
  "fetch_init w =
     \<lparr> collected_papers = [], seen_ids = {}, fetch_world = print LogFetchingArxiv w \<rparr>"

text \<open>The function itself. The module-level \<open>KEYWORDS\<close> is a parameter; the caller
  passes the constant. The result is the raised exception or the returned list.\<close>

definition get_arxiv_papers_by_keywords ::
  "env \<Rightarrow> string list \<Rightarrow> world \<Rightarrow> (exn + paper list) \<times> world" where
  "get_arxiv_papers_by_keywords env keywords w =
     (case keyword_loop env keywords (fetch_init w) of
        (Some e, st) \<Rightarrow> (Inl e, fetch_world st)
      | (None, st) \<Rightarrow> (Inr (collected_papers st), fetch_world st))"

section \<open>Trending Paper Fetcher: \<open>get_huggingface_daily_papers\<close>\<close>

text \<open>Truth value of a decoded JSON value (\<open>not v\<close> is its negation).\<close>

fun truthy :: "json \<Rightarrow> bool" where
  "truthy JNull = False"
| "truthy (JBool b) = b"
| "truthy (JInt i) = (i \<noteq> 0)"
| "truthy (JStr s) = (s \<noteq> [])"
| "truthy (JList xs) = (xs \<noteq> [])"
| "truthy (JDict kvs) = (kvs \<noteq> [])"

text \<open>\<open>x.get(key, default)\<close>: only a dictionary has the method.\<close>

definition dict_get :: "json \<Rightarrow> string \<Rightarrow> json \<Rightarrow> exn + json" where
  "dict_get x k d =
     (case x of
        JDict kvs \<Rightarrow> Inr (case map_of kvs k of None \<Rightarrow> d | Some v \<Rightarrow> v)
      | _ \<Rightarrow> Inl (AttributeError x ''get''))"

text \<open>\<open>a < b\<close> on sort keys: integers and Booleans compare as numbers, strings
  lexicographically; any other pair is reported as unorderable (Python also compares two
  lists element by element, which is not modelled).\<close>

fun num_of :: "json \<Rightarrow> int option" where
  "num_of (JInt i) = Some i"
| "num_of (JBool b) = Some (if b then 1 else 0)"
| "num_of _ = None"

definition str_lt :: "string \<Rightarrow> string \<Rightarrow> bool" where
  "str_lt s t = lexordp (\<lambda>c d. (of_char c :: nat) < of_char d) s t"

definition py_lt :: "json \<Rightarrow> json \<Rightarrow> exn + bool" where
  "py_lt a b =
     (case (num_of a, num_of b) of
        (Some x, Some y) \<Rightarrow> Inr (x < y)
      | _ \<Rightarrow> (case (a, b) of
                (JStr s, JStr t) \<Rightarrow> Inr (str_lt s t)
              | _ \<Rightarrow> Inl (TypeError a b)))"

text \<open>\<open>sorted(data, key=..., reverse=True)\<close>: the keys of all elements are computed
  first, in order; the sort is stable (elements with equal keys keep their order, also
  under \<open>reverse\<close>) and compares keys with \<open><\<close> only. It is modelled as an insertion sort
  from the right; which pair a \<open>TypeError\<close> names may differ from CPython's.\<close>

fun map_exn :: "('a \<Rightarrow> exn + 'b) \<Rightarrow> 'a list \<Rightarrow> exn + 'b list" where
  "map_exn f [] = Inr []"
| "map_exn f (x # xs) =
     (case f x of
        Inl e \<Rightarrow> Inl e
      | Inr y \<Rightarrow> (case map_exn f xs of Inl e \<Rightarrow> Inl e | Inr ys \<Rightarrow> Inr (y # ys)))"

fun insert_desc :: "json \<times> 'a \<Rightarrow> (json \<times> 'a) list \<Rightarrow> exn + (json \<times> 'a) list" where
  "insert_desc x [] = Inr [x]"
| "insert_desc x (y # ys) =
     (case py_lt (fst x) (fst y) of
        Inl e \<Rightarrow> Inl e
      | Inr True \<Rightarrow> (case insert_desc x ys of Inl e \<Rightarrow> Inl e | Inr zs \<Rightarrow> Inr (y # zs))
      | Inr False \<Rightarrow> Inr (x # y # ys))"

fun sort_desc :: "(json \<times> 'a) list \<Rightarrow> exn + (json \<times> 'a) list" where
  "sort_desc [] = Inr []"
| "sort_desc (x # xs) =
     (case sort_desc xs of Inl e \<Rightarrow> Inl e | Inr ys \<Rightarrow> insert_desc x ys)"

definition sorted_reverse :: "('a \<Rightarrow> exn + json) \<Rightarrow> 'a list \<Rightarrow> exn + 'a list" where
  "sorted_reverse key xs =
     (case map_exn key xs of
        Inl e \<Rightarrow> Inl e
      | Inr ks \<Rightarrow> (case sort_desc (zip ks xs) of
                    Inl e \<Rightarrow> Inl e
                  | Inr ps \<Rightarrow> Inr (map snd ps)))"

text \<open>\<open>xs[:n]\<close>: a negative \<open>n\<close> counts from the end.\<close>

definition slice_to :: "int \<Rightarrow> 'a list \<Rightarrow> 'a list" where
  "slice_to n xs = (if 0 \<le> n then take (nat n) xs else take (length xs - nat (- n)) xs)"

text \<open>An f-string field: a string is inserted as it is, any other value through
  \<open>str()\<close>.\<close>

definition py_format :: "(json \<Rightarrow> string) \<Rightarrow> json \<Rightarrow> string" where
  "py_format to_str v = (case v of JStr s \<Rightarrow> s | _ \<Rightarrow> to_str v)"

definition daily_papers_url :: "string \<Rightarrow> string" where
  "daily_papers_url date = ''https://huggingface.co/api/daily_papers?date='' @ date"

text \<open>The record built from a \<open>paper_info\<close> (lines 114 to 121).\<close>

definition hf_paper :: "(json \<Rightarrow> string) \<Rightarrow> json \<Rightarrow> exn + paper" where
  "hf_paper to_str paper_info =
     (case dict_get paper_info ''title'' (JStr ''Unknown'') of
        Inl e \<Rightarrow> Inl e
      | Inr t \<Rightarrow>
     (case dict_get paper_info ''id'' (JStr []) of
        Inl e \<Rightarrow> Inl e
      | Inr i \<Rightarrow>
     (case dict_get paper_info ''summary'' (JStr []) of
        Inl e \<Rightarrow> Inl e
      | Inr s \<Rightarrow>
          Inr \<lparr> source = ''Hugging Face '' @ [CHR 0xF0, CHR 0x9F, CHR 0x94, CHR 0xA5],
                title = t,
                url = ''https://huggingface.co/papers/'' @ py_format to_str i,
                abstract = s,
                authors = ''Community Trending'',
                color = 16776960 \<rparr>)))"

text \<open>The loop over \<open>sorted_papers\<close> (lines 109 to 122); the accumulator is \<open>papers\<close>.\<close>

fun map_papers :: "(json \<Rightarrow> string) \<Rightarrow> json list \<Rightarrow> paper list \<Rightarrow> exn + paper list" where
  "map_papers to_str [] papers = Inr papers"
| "map_papers to_str (p # ps) papers =
     (case dict_get p ''paper'' (JDict []) of
        Inl e \<Rightarrow> Inl e
      | Inr paper_info \<Rightarrow>
          if \<not> truthy paper_info then map_papers to_str ps papers
          else (case hf_paper to_str paper_info of
                  Inl e \<Rightarrow> Inl e
                | Inr paper \<Rightarrow> map_papers to_str ps (papers @ [paper])))"

text \<open>Lines 97 to 102: the request for today's date and, when its response is not a
  success or its JSON is empty, the request for the day before.\<close>

definition hf_request :: "env \<Rightarrow> world \<Rightarrow> (exn + response) \<times> world" where
  "hf_request env w =
     (let url = daily_papers_url (strftime env (local_now env (calls w)));
          w1 = call (Get url) w
      in case http_get env (calls w) url of
           Inl e \<Rightarrow> (Inl e, w1)
         | Inr resp \<Rightarrow>
             (case (if status_code resp \<noteq> 200 then Inr True
                    else (case json_body resp of Inl e \<Rightarrow> Inl e | Inr d \<Rightarrow> Inr (\<not> truthy d))) of
                Inl e \<Rightarrow> (Inl e, w1)
              | Inr False \<Rightarrow> (Inr resp, w1)
              | Inr True \<Rightarrow>
                  (let url2 = daily_papers_url
                                (strftime env (local_now env (calls w1) - us_per_day))
                   in (http_get env (calls w1) url2, call (Get url2) w1))))"

text \<open>Lines 104 to 122, on the response kept.\<close>

definition hf_papers_of :: "env \<Rightarrow> int \<Rightarrow> response \<Rightarrow> exn + paper list" where
  "hf_papers_of env max_results resp =
     (case json_body resp of
        Inl e \<Rightarrow> Inl e
      | Inr (JList data) \<Rightarrow>
          (case sorted_reverse (\<lambda>x. dict_get x ''upvotes'' (JInt 0)) data of
             Inl e \<Rightarrow> Inl e
           | Inr sorted_all \<Rightarrow> map_papers (str_of env) (slice_to max_results sorted_all) [])
      | Inr _ \<Rightarrow> Inr [])"

text \<open>The body of the \<open>try\<close> (lines 97 to 122).\<close>

definition hf_try :: "env \<Rightarrow> int \<Rightarrow> world \<Rightarrow> (exn + paper list) \<times> world" where
  "hf_try env max_results w =
     (case hf_request env w of
        (Inl e, w1) \<Rightarrow> (Inl e, w1)
      | (Inr resp, w1) \<Rightarrow> (hf_papers_of env max_results resp, w1))"

definition get_huggingface_daily_papers :: "env \<Rightarrow> int \<Rightarrow> world \<Rightarrow> paper list \<times> world" where
  "get_huggingface_daily_papers env max_results w =
     (case hf_try env max_results (print LogFetchingHF w) of
        (Inl e, w1) \<Rightarrow> ([], print (LogHFFetchFailed e) w1)
      | (Inr papers, w1) \<Rightarrow> (papers, w1))"

section \<open>Summarizer and Notifier\<close>

definition MODEL_NAME :: string where
  "MODEL_NAME = ''gpt-5-nano''"

definition build_prompt :: "(json \<Rightarrow> string) \<Rightarrow> paper \<Rightarrow> string" where
  "build_prompt to_str paper_data =
     [CHR 0x0A] @ ''    You are a research assistant. Summarize this paper for an expert.'' @
     [CHR 0x0A] @ ''    '' @
     [CHR 0x0A] @ ''    Paper Title: '' @ py_format to_str (title paper_data) @
     [CHR 0x0A] @ ''    Abstract: '' @ py_format to_str (abstract paper_data) @
     [CHR 0x0A] @ ''    '' @
     [CHR 0x0A] @ ''    Format output strictly:'' @
     [CHR 0x0A] @ ''    **TL;DR**: [One concise sentence]'' @
     [CHR 0x0A] @ ''    **Key Innovation**: [1-2 bullet points on technical novelty]'' @
     [CHR 0x0A] @ ''    **Performance**: [Main metric or result if available]'' @
     [CHR 0x0A] @ ''    ''"

text \<open>The completion oracle answers with an exception or with the \<open>message.content\<close> of
  each choice (\<open>None\<close> when the message has no text). The result is what the function
  returns: the first choice's content, or the fallback string.\<close>

definition summarize_with_ai :: "env \<Rightarrow> paper \<Rightarrow> world \<Rightarrow> string option \<times> world" where
  "summarize_with_ai env paper_data w =
     (let prompt = build_prompt (str_of env) paper_data;
          w1 = call (Completion MODEL_NAME prompt 30) w
      in case chat_completion env (calls w) prompt of
           Inl e \<Rightarrow> (Some (''Summary failed: '' @ str_exn e), w1)
         | Inr [] \<Rightarrow> (Some (''Summary failed: '' @ str_exn IndexError), w1)
         | Inr (content # _) \<Rightarrow> (content, w1))"

definition send_discord_embed ::
  "env \<Rightarrow> paper \<Rightarrow> string option \<Rightarrow> world \<Rightarrow> exn option \<times> world" where
  "send_discord_embed env paper_data summary w =
     (let e = \<lparr> embed_title = title paper_data,
                embed_url = url paper_data,
                embed_description = summary,
                embed_color = color paper_data,
                embed_fields = [(''Topic / Source'', source paper_data, True),
                                (''Authors'', authors paper_data, True)],
                embed_footer = ''Generated by '' @ MODEL_NAME @ '' '' @
                               [CHR 0xE2, CHR 0x80, CHR 0xA2] @ '' '' @
                               strftime env (local_now env (calls w)) \<rparr>
      in (http_post env (calls w) (webhook_url env) e, call (Post (webhook_url env) e) w))"

section \<open>The main program\<close>

text \<open>\<open>title.lower()\<close>: only a string has the method.\<close>

definition py_lower :: "(string \<Rightarrow> string) \<Rightarrow> json \<Rightarrow> exn + string" where
  "py_lower lo v =
     (case v of JStr s \<Rightarrow> Inr (lower lo s) | _ \<Rightarrow> Inl (AttributeError v ''lower''))"

text \<open>Cross-Source Deduplicator (lines 191 to 194): the loop over \<open>hf_papers\<close>, with
  \<open>all_papers\<close> as accumulator. The first argument is \<open>str.lower()\<close> on strings that are
  not ASCII.\<close>

fun dedup_loop ::
  "(string \<Rightarrow> string) \<Rightarrow> string set \<Rightarrow> paper list \<Rightarrow> paper list \<Rightarrow> exn + paper list" where
  "dedup_loop lo existing_titles [] all_papers = Inr all_papers"
| "dedup_loop lo existing_titles (hf # hfs) all_papers =
     (case py_lower lo (title hf) of
        Inl e \<Rightarrow> Inl e
      | Inr t \<Rightarrow>
          if t \<notin> existing_titles then dedup_loop lo existing_titles hfs (all_papers @ [hf])
          else dedup_loop lo existing_titles hfs all_papers)"

definition dedup :: "(string \<Rightarrow> string) \<Rightarrow> paper list \<Rightarrow> paper list \<Rightarrow> exn + paper list" where
  "dedup lo all_papers hf_papers =
     (case map_exn (\<lambda>p. py_lower lo (title p)) all_papers of
        Inl e \<Rightarrow> Inl e
      | Inr ts \<Rightarrow> dedup_loop lo (set ts) hf_papers all_papers)"

text \<open>Lines 179 to 185: the keyword phase and its \<open>except\<close>.\<close>

definition keyword_phase :: "env \<Rightarrow> string list \<Rightarrow> world \<Rightarrow> paper list \<times> world" where
  "keyword_phase env keywords w =
     (case get_arxiv_papers_by_keywords env keywords w of
        (Inl e, w1) \<Rightarrow> ([], print (LogArxivModuleError e) w1)
      | (Inr papers, w1) \<Rightarrow> ([] @ papers, w1))"

text \<open>Lines 179 to 194: the paper list of the pipeline, or the exception that ends the
  run.\<close>

definition collect_papers :: "env \<Rightarrow> string list \<Rightarrow> world \<Rightarrow> (exn + paper list) \<times> world" where
  "collect_papers env keywords w =
     (case keyword_phase env keywords w of
        (all_papers, w1) \<Rightarrow>
          (case get_huggingface_daily_papers env 3 w1 of
             (hf_papers, w2) \<Rightarrow> (dedup (str_lower env) all_papers hf_papers, w2)))"

text \<open>Lines 198 to 201.\<close>

fun process_papers :: "env \<Rightarrow> paper list \<Rightarrow> world \<Rightarrow> exn option \<times> world" where
  "process_papers env [] w = (None, w)"
| "process_papers env (paper # papers) w =
     (case summarize_with_ai env paper (print (LogProcessing (title paper)) w) of
        (summary, w1) \<Rightarrow>
          (case send_discord_embed env paper summary w1 of
             (Some e, w2) \<Rightarrow> (Some e, w2)
           | (None, w2) \<Rightarrow> process_papers env papers w2))"

text \<open>The whole run: the exception that ends it, if any, and what it has printed and
  called.\<close>

definition main :: "env \<Rightarrow> string list \<Rightarrow> world \<Rightarrow> exn option \<times> world" where
  "main env keywords w =
     (case collect_papers env keywords w of
        (Inl e, w1) \<Rightarrow> (Some e, w1)
      | (Inr all_papers, w1) \<Rightarrow>
          (case process_papers env all_papers (print (LogTotal (length all_papers)) w1) of
             (Some e, w2) \<Rightarrow> (Some e, w2)
           | (None, w2) \<Rightarrow> (None, print LogAllDone w2)))"

section \<open>Vocabulary of the properties\<close>

text \<open>The three checks of lines 58 to 70 on one event of a keyword's results, against the
  identifiers seen so far: the loop body \<open>continue\<close>s exactly when one of them holds.\<close>

definition skipped :: "string set \<Rightarrow> search_event \<Rightarrow> bool" where
  "skipped seen ev =
     (case ev of
        Yield now r \<Rightarrow>
          entry_id r \<in> seen \<or> timedelta_days (now - published r) > 2 \<or>
          \<not> startswith (primary_category r) [''cs'', ''stat'']
      | Raise e \<Rightarrow> False)"

text \<open>A record built from a result whose primary category starts with \<open>cs\<close> or
  \<open>stat\<close>.\<close>

definition category_ok :: "paper \<Rightarrow> bool" where
  "category_ok p = (\<exists>r. p = arxiv_paper r \<and> startswith (primary_category r) [''cs'', ''stat''])"

section \<open>Example inputs\<close>

definition w0 :: world where
  "w0 = \<lparr> stdout = [], calls = [] \<rparr>"

text \<open>Midnight UTC of 2024-10-04, day 20000 after the epoch.\<close>

definition now0 :: int where
  "now0 = 20000 * us_per_day"

definition us_per_hour :: int where
  "us_per_hour = 3600000000"

definition mk_result :: "string \<Rightarrow> string \<Rightarrow> int \<Rightarrow> string \<Rightarrow> arxiv_result" where
  "mk_result ident cat pub ttl =
     \<lparr> entry_id = ident, published = pub, primary_category = cat, result_title = ttl,
       result_summary = ''Abstract of '' @ ttl,
       result_authors = [''Ada'', ''Bob'', ''Cy'', ''Di''] \<rparr>"

text \<open>Published two days and one hour before \<open>now0\<close>.\<close>

definition r_stale :: arxiv_result where
  "r_stale = mk_result ''http://arxiv.org/abs/2410.00001v1'' ''cs.CL''
               (now0 - (2 * us_per_day + us_per_hour)) ''Stale''"

text \<open>Published three days and one hour before \<open>now0\<close>.\<close>

definition r_old :: arxiv_result where
  "r_old = mk_result ''http://arxiv.org/abs/2409.00002v1'' ''cs.CL''
             (now0 - (3 * us_per_day + us_per_hour)) ''Old''"

definition r_econ :: arxiv_result where
  "r_econ = mk_result ''http://arxiv.org/abs/2410.00003v1'' ''econ.EM''
              (now0 - us_per_hour) ''Agents in Markets''"

definition r_a :: arxiv_result where
  "r_a = mk_result ''http://arxiv.org/abs/2410.00004v1'' ''cs.LG''
           (now0 - us_per_hour) ''Fresh A''"

definition r_b :: arxiv_result where
  "r_b = mk_result ''http://arxiv.org/abs/2410.00005v1'' ''stat.ML''
           (now0 - us_per_hour) ''Fresh B''"

text \<open>An environment in which every search is empty and every call fails.\<close>

definition quiet_env :: env where
  "quiet_env =
     \<lparr> arxiv_search = (\<lambda>q. []),
       local_now = (\<lambda>h. now0),
       strftime = (\<lambda>t. if timedelta_days t = 20000 then ''2024-10-04''
                        else if timedelta_days t = 19999 then ''2024-10-03'' else ''other''),
       str_of = (\<lambda>v. ''?''),
       str_lower = (\<lambda>s. s),
       http_get = (\<lambda>h u. Inl (Raised ''connection refused'')),
       chat_completion = (\<lambda>h p. Inl (Raised ''connection refused'')),
       http_post = (\<lambda>h u e. None),
       webhook_url = Some ''https://discord.example/webhook'' \<rparr>"

text \<open>The search for \<open>RAG\<close> yields one result only, \<open>r_stale\<close>.\<close>

definition env_stale :: env where
  "env_stale = quiet_env\<lparr> arxiv_search :=
     (\<lambda>q. if q = mk_query ''RAG'' then [Yield now0 r_stale] else []) \<rparr>"


text \<open>The search for \<open>RAG\<close> yields an old result, one outside \<open>cs\<close> and \<open>stat\<close>, two
  fresh ones, and then fails.\<close>

definition env_rag :: env where
  "env_rag = quiet_env\<lparr> arxiv_search :=
     (\<lambda>q. if q = mk_query ''RAG''
          then [Yield now0 r_old, Yield now0 r_econ, Yield now0 r_a, Yield now0 r_b,
                Raise (Raised ''timeout'')]
          else []) \<rparr>"

section \<open>Vocabulary of the properties: trending papers\<close>

text \<open>The upvote count the sort key reads from an element: the number under \<open>upvotes\<close>,
  0 when the key is absent.\<close>

definition upvotes :: "json \<Rightarrow> int" where
  "upvotes x =
     (case dict_get x ''upvotes'' (JInt 0) of
        Inr v \<Rightarrow> (case num_of v of Some i \<Rightarrow> i | None \<Rightarrow> 0)
      | Inl e \<Rightarrow> 0)"

text \<open>An element is counted when it is a dictionary whose \<open>upvotes\<close>, if present, is a
  number.\<close>

definition counted :: "json \<Rightarrow> bool" where
  "counted x =
     (case dict_get x ''upvotes'' (JInt 0) of Inr v \<Rightarrow> num_of v \<noteq> None | Inl e \<Rightarrow> False)"

text \<open>The record of an element that carries a non-empty dictionary under \<open>paper\<close>.\<close>

definition trending_record :: "(json \<Rightarrow> string) \<Rightarrow> json \<Rightarrow> paper option" where
  "trending_record to_str x =
     (case dict_get x ''paper'' (JDict []) of
        Inr paper_info \<Rightarrow>
          if truthy paper_info
          then (case hf_paper to_str paper_info of Inr p \<Rightarrow> Some p | Inl e \<Rightarrow> None)
          else None
      | Inl e \<Rightarrow> None)"

text \<open>A key paired with its element, the key being the element's upvote count.\<close>

definition key_ok :: "json \<times> json \<Rightarrow> bool" where
  "key_ok p = (num_of (fst p) = Some (upvotes (snd p)))"

text \<open>The URL of the first request and of the retry, made after the first.\<close>

definition first_url :: "env \<Rightarrow> world \<Rightarrow> string" where
  "first_url env w = daily_papers_url (strftime env (local_now env (calls w)))"


section \<open>Example inputs: trending papers\<close>

definition item :: "string \<Rightarrow> string \<Rightarrow> int \<Rightarrow> json" where
  "item ident ttl ups =
     JDict [(''paper'', JDict [(''id'', JStr ident), (''title'', JStr ttl),
                               (''summary'', JStr (''About '' @ ttl))]),
            (''upvotes'', JInt ups)]"

definition hf_record :: "string \<Rightarrow> string \<Rightarrow> paper" where
  "hf_record ident ttl =
     \<lparr> source = ''Hugging Face '' @ [CHR 0xF0, CHR 0x9F, CHR 0x94, CHR 0xA5],
       title = JStr ttl,
       url = ''https://huggingface.co/papers/'' @ ident,
       abstract = JStr (''About '' @ ttl),
       authors = ''Community Trending'',
       color = 16776960 \<rparr>"

definition data5 :: "json list" where
  "data5 = [item ''2410.1'' ''A'' 3, item ''2410.2'' ''B'' 9, item ''2410.3'' ''C'' 1,
            item ''2410.4'' ''D'' 7, item ''2410.5'' ''E'' 2]"

definition resp5 :: response where
  "resp5 = \<lparr> status_code = 200, json_body = Inr (JList data5) \<rparr>"


text \<open>A response with status 200 and a body of zero bytes: \<open>resp.json()\<close> raises the
  decoder's error.\<close>

definition resp_bad_json :: response where
  "resp_bad_json =
     \<lparr> status_code = 200,
       json_body = Inl (Raised ''Expecting value: line 1 column 1 (char 0)'') \<rparr>"

definition resp_bad_item :: response where
  "resp_bad_item =
     \<lparr> status_code = 200, json_body = Inr (JList [JDict [(''paper'', JStr ''oops'')]]) \<rparr>"

text \<open>Every request is answered with the five papers.\<close>

definition env_trending :: env where
  "env_trending = quiet_env\<lparr> http_get := (\<lambda>h u. Inr resp5) \<rparr>"


definition env_bad_json :: env where
  "env_bad_json = quiet_env\<lparr> http_get := (\<lambda>h u. Inr resp_bad_json) \<rparr>"

definition env_bad_item :: env where
  "env_bad_item = quiet_env\<lparr> http_get := (\<lambda>h u. Inr resp_bad_item) \<rparr>"

section \<open>Vocabulary of the properties: titles\<close>

definition is_str :: "json \<Rightarrow> bool" where
  "is_str v = (case v of JStr s \<Rightarrow> True | _ \<Rightarrow> False)"

text \<open>The lower-cased title of a paper whose title is a string; \<open>lo\<close> is \<open>str.lower()\<close> on
  strings that are not ASCII.\<close>

definition title_lower :: "(string \<Rightarrow> string) \<Rightarrow> paper \<Rightarrow> string" where
  "title_lower lo p = (case title p of JStr s \<Rightarrow> lower lo s | _ \<Rightarrow> [])"

section \<open>Example inputs: the main program\<close>

definition kw_foo :: paper where
  "kw_foo = arxiv_paper (mk_result ''http://arxiv.org/abs/2410.00006v1'' ''cs.CL''
                          (now0 - us_per_hour) ''foo bar'')"

definition hf_foo :: paper where
  "hf_foo = hf_record ''2410.6'' ''Foo Bar''"

definition hf_other :: paper where
  "hf_other = hf_record ''2410.7'' ''Other''"

definition hf_twin1 :: paper where
  "hf_twin1 = hf_record ''2410.8'' ''Twin''"

definition hf_twin2 :: paper where
  "hf_twin2 = hf_record ''2410.9'' ''TWIN''"

text \<open>The search for \<open>RAG\<close> yields a fresh result, the search for \<open>Agents\<close> fails; the
  trending endpoint answers with the five papers.\<close>

definition env_raise :: env where
  "env_raise = quiet_env\<lparr>
     arxiv_search := (\<lambda>q. if q = mk_query ''RAG'' then [Yield now0 r_a]
                          else if q = mk_query ''Agents'' then [Raise (Raised ''timeout'')]
                          else []),
     http_get := (\<lambda>h u. Inr resp5) \<rparr>"

text \<open>The colour code of a record of the Trending Paper Fetcher.\<close>

definition trending_colour :: "paper \<Rightarrow> bool" where
  "trending_colour p = (color p = 16776960)"

section \<open>The inner loop accepts the first result that is not skipped\<close>

lemma scan_results_dropWhile:
  "scan_results evs st =
     (case dropWhile (skipped (seen_ids st)) evs of
        [] \<Rightarrow> (Inr False, st)
      | Raise e # _ \<Rightarrow> (Inl e, st)
      | Yield now r # _ \<Rightarrow>
          (Inr True,
           st\<lparr> collected_papers := collected_papers st @ [arxiv_paper r],
               seen_ids := insert (entry_id r) (seen_ids st) \<rparr>))"
proof (induction evs)
  case Nil
  show ?case by simp
next
  case (Cons ev evs)
  show ?case
  proof (cases ev)
    case (Yield now r)
    with Cons show ?thesis by (simp add: skipped_def)
  next
    case (Raise e)
    then show ?thesis by (simp add: skipped_def)
  qed
qed

lemma dropWhile_head_not: "dropWhile P xs = y # ys \<Longrightarrow> \<not> P y"
  by (simp add: dropWhile_eq_Cons_conv)

lemma process_keyword_collected:
  "collected_papers (snd (process_keyword env k st)) =
     collected_papers st @
       (case dropWhile (skipped (seen_ids st)) (arxiv_search env (mk_query k)) of
          Yield now r # _ \<Rightarrow> [arxiv_paper r]
        | _ \<Rightarrow> [])"
proof (cases "dropWhile (skipped (seen_ids st)) (arxiv_search env (mk_query k))")
  case Nil
  then show ?thesis
    by (simp add: process_keyword_def scan_results_dropWhile print_def Let_def
             del: dropWhile_eq_Nil_conv)
next
  case (Cons ev rest)
  then show ?thesis
    by (cases ev) (simp_all add: process_keyword_def scan_results_dropWhile print_def Let_def)
qed

lemma process_keyword_length:
  "length (collected_papers (snd (process_keyword env k st))) \<le> Suc (length (collected_papers st))"
  by (simp add: process_keyword_collected split: list.splits search_event.splits)

lemma keyword_loop_length:
  "length (collected_papers (snd (keyword_loop env ks st))) \<le> length (collected_papers st) + length ks"
proof (induction ks arbitrary: st)
  case Nil
  show ?case by simp
next
  case (Cons k ks)
  obtain r st1 where pk: "process_keyword env k st = (r, st1)"
    by (cases "process_keyword env k st")
  have l1: "length (collected_papers st1) \<le> Suc (length (collected_papers st))"
    using process_keyword_length [of env k st] pk by simp
  show ?case
  proof (cases r)
    case None
    with pk Cons.IH [of st1] l1 show ?thesis by simp
  next
    case (Some e)
    with pk l1 show ?thesis by simp
  qed
qed

lemma get_arxiv_papers_length:
  assumes "fst (get_arxiv_papers_by_keywords env ks w) = Inr papers"
  shows "length papers \<le> length ks"
proof -
  obtain x st where kl: "keyword_loop env ks (fetch_init w) = (x, st)"
    by (cases "keyword_loop env ks (fetch_init w)")
  have "papers = collected_papers st"
    using assms kl by (cases x) (simp_all add: get_arxiv_papers_by_keywords_def)
  moreover have "length (collected_papers st) \<le> length (collected_papers (fetch_init w)) + length ks"
    using keyword_loop_length [of env ks "fetch_init w"] kl by simp
  ultimately show ?thesis by (simp add: fetch_init_def)
qed

text \<open>What the loop body does for one keyword, in full: it prints the keyword, drops the
  events that are skipped, and stops at the first one that is not; a result there is
  collected and its identifier recorded, an exception there is raised, and when there is
  none the keyword is reported as empty.\<close>

lemma process_keyword_result:
  "process_keyword env k st =
     (case dropWhile (skipped (seen_ids st)) (arxiv_search env (mk_query k)) of
        [] \<Rightarrow>
          (None, st\<lparr> fetch_world :=
                      print (LogNoRecentPaper k) (print (LogSearching k) (fetch_world st)) \<rparr>)
      | Raise e # rest \<Rightarrow>
          (Some e, st\<lparr> fetch_world := print (LogSearching k) (fetch_world st) \<rparr>)
      | Yield now r # rest \<Rightarrow>
          (None, st\<lparr> collected_papers := collected_papers st @ [arxiv_paper r],
                     seen_ids := insert (entry_id r) (seen_ids st),
                     fetch_world := print (LogSearching k) (fetch_world st) \<rparr>))"
proof (cases "dropWhile (skipped (seen_ids st)) (arxiv_search env (mk_query k))")
  case Nil
  then show ?thesis
    by (simp add: process_keyword_def scan_results_dropWhile Let_def
             del: dropWhile_eq_Nil_conv)
next
  case (Cons ev rest)
  then show ?thesis
    by (cases ev) (simp_all add: process_keyword_def scan_results_dropWhile Let_def)
qed

lemma skipped_old: "skipped {} (Yield now0 r_old)"
  by (simp add: skipped_def r_old_def mk_result_def now0_def us_per_hour_def us_per_day_def
      timedelta_days_def)

lemma skipped_econ: "skipped {} (Yield now0 r_econ)"
  by (simp add: skipped_def r_econ_def mk_result_def startswith_def)

lemma not_skipped_a: "\<not> skipped {} (Yield now0 r_a)"
  by (simp add: skipped_def r_a_def mk_result_def now0_def us_per_hour_def us_per_day_def
      timedelta_days_def startswith_def)

lemma rag_search:
  "arxiv_search env_rag (mk_query ''RAG'') =
     [Yield now0 r_old, Yield now0 r_econ, Yield now0 r_a, Yield now0 r_b,
      Raise (Raised ''timeout'')]"
  by (simp add: env_rag_def quiet_env_def)

lemma rag_eval:
  "fst (get_arxiv_papers_by_keywords env_rag [''RAG'', ''Agents''] w0) = Inr [arxiv_paper r_a]"
  by (simp add: get_arxiv_papers_by_keywords_def fetch_init_def process_keyword_def
      scan_results_dropWhile skipped_old skipped_econ not_skipped_a env_rag_def quiet_env_def
      mk_query_def print_def Let_def)

section \<open>The age check\<close>

text \<open>The check of line 62 skips a result exactly from an age of three days on.\<close>

lemma age_check_threshold:
  "(timedelta_days (now - pub) > 2) = (3 * us_per_day \<le> now - pub)"
  by (simp add: timedelta_days_def us_per_day_def) linarith

lemma scan_results_skips_three_days_old:
  "3 * us_per_day \<le> now - published r \<Longrightarrow>
   scan_results (Yield now r # evs) st = scan_results evs st"
  using age_check_threshold [of now "published r"] by simp

text \<open>
  C1. The check of line 62 compares \<open>timedelta.days\<close>, the whole days of the age, with 2:
  a result is skipped from an age of three days on. \<open>r_stale\<close>, published two days and one
  hour before it is examined, is more than 2 days old and is returned.
\<close>

theorem age_check_returns_result_older_than_two_days:
  "now0 - published r_stale > 2 * us_per_day
   \<and> fst (get_arxiv_papers_by_keywords env_stale [''RAG''] w0) = Inr [arxiv_paper r_stale]"
  by (simp add: get_arxiv_papers_by_keywords_def fetch_init_def process_keyword_def
      env_stale_def quiet_env_def r_stale_def mk_result_def now0_def us_per_hour_def
      us_per_day_def timedelta_days_def startswith_def print_def Let_def)


section \<open>The category check\<close>

lemma scan_results_category:
  assumes "list_all category_ok (collected_papers st)"
  shows "list_all category_ok (collected_papers (snd (scan_results evs st)))"
proof (cases "dropWhile (skipped (seen_ids st)) evs")
  case Nil
  with assms show ?thesis by (simp add: scan_results_dropWhile del: dropWhile_eq_Nil_conv)
next
  case (Cons ev rest)
  have ns: "\<not> skipped (seen_ids st) ev" using Cons by (rule dropWhile_head_not)
  show ?thesis
  proof (cases ev)
    case (Yield now r)
    with ns have "startswith (primary_category r) [''cs'', ''stat'']"
      by (simp add: skipped_def)
    then have "category_ok (arxiv_paper r)" unfolding category_ok_def by blast
    with assms Cons Yield show ?thesis by (simp add: scan_results_dropWhile)
  next
    case (Raise e)
    with assms Cons show ?thesis by (simp add: scan_results_dropWhile)
  qed
qed

lemma process_keyword_category:
  assumes "list_all category_ok (collected_papers st)"
  shows "list_all category_ok (collected_papers (snd (process_keyword env k st)))"
proof -
  let ?st1 = "st\<lparr> fetch_world := print (LogSearching k) (fetch_world st) \<rparr>"
  have "list_all category_ok (collected_papers ?st1)" using assms by simp
  then have "list_all category_ok
      (collected_papers (snd (scan_results (arxiv_search env (mk_query k)) ?st1)))"
    by (rule scan_results_category)
  then show ?thesis
    by (cases "scan_results (arxiv_search env (mk_query k)) ?st1")
       (auto simp: process_keyword_def Let_def split: sum.splits bool.splits)
qed

lemma keyword_loop_category:
  "list_all category_ok (collected_papers st) \<Longrightarrow>
   list_all category_ok (collected_papers (snd (keyword_loop env ks st)))"
proof (induction ks arbitrary: st)
  case Nil
  then show ?case by simp
next
  case (Cons k ks)
  obtain r st1 where pk: "process_keyword env k st = (r, st1)"
    by (cases "process_keyword env k st")
  have c1: "list_all category_ok (collected_papers st1)"
    using process_keyword_category [OF Cons.prems, of env k] pk by simp
  show ?case
  proof (cases r)
    case None
    with pk Cons.IH [OF c1] show ?thesis by simp
  next
    case (Some e)
    with pk c1 show ?thesis by simp
  qed
qed

lemma arxiv_paper_category:
  "arxiv_paper r = arxiv_paper r' \<Longrightarrow> primary_category r = primary_category r'"
  by (simp add: arxiv_paper_def)

text \<open>
  C3. A result whose primary category starts with neither \<open>cs\<close> nor \<open>stat\<close> has no record
  in the list the Keyword Paper Fetcher returns.
\<close>

theorem category_filter:
  assumes "fst (get_arxiv_papers_by_keywords env keywords w) = Inr papers"
      and "\<not> startswith (primary_category r) [''cs'', ''stat'']"
  shows "arxiv_paper r \<notin> set papers"
proof
  assume mem: "arxiv_paper r \<in> set papers"
  obtain x st where kl: "keyword_loop env keywords (fetch_init w) = (x, st)"
    by (cases "keyword_loop env keywords (fetch_init w)")
  have "list_all category_ok (collected_papers (fetch_init w))"
    by (simp add: fetch_init_def)
  then have "list_all category_ok
      (collected_papers (snd (keyword_loop env keywords (fetch_init w))))"
    by (rule keyword_loop_category)
  with kl have inv: "list_all category_ok (collected_papers st)" by simp
  have "papers = collected_papers st"
    using assms(1) kl by (cases x) (simp_all add: get_arxiv_papers_by_keywords_def)
  with inv mem have "category_ok (arxiv_paper r)" by (simp add: list_all_iff)
  then obtain r' where "arxiv_paper r = arxiv_paper r'"
      and "startswith (primary_category r') [''cs'', ''stat'']"
    unfolding category_ok_def by blast
  with assms(2) show False using arxiv_paper_category [of r r'] by simp
qed

theorem category_filter_witness:
  "fst (get_arxiv_papers_by_keywords env_rag [''RAG'', ''Agents''] w0) = Inr [arxiv_paper r_a]
   \<and> \<not> startswith (primary_category r_econ) [''cs'', ''stat'']
   \<and> arxiv_paper r_econ \<notin> set [arxiv_paper r_a]"
proof -
  have c: "\<not> startswith (primary_category r_econ) [''cs'', ''stat'']"
    by (simp add: r_econ_def mk_result_def startswith_def)
  from category_filter [OF rag_eval c] rag_eval c show ?thesis by blast
qed

section \<open>The trending list is sorted by upvotes and cut\<close>

lemma py_lt_key_ok:
  "key_ok p \<Longrightarrow> key_ok q \<Longrightarrow> py_lt (fst p) (fst q) = Inr (upvotes (snd p) < upvotes (snd q))"
  by (simp add: key_ok_def py_lt_def)

lemma insert_desc_insort:
  "key_ok p \<Longrightarrow> list_all key_ok ps \<Longrightarrow>
   insert_desc p ps = Inr (insort_key (\<lambda>q. - upvotes (snd q)) p ps)"
proof (induction ps)
  case Nil
  show ?case by simp
next
  case (Cons q ps)
  then have "py_lt (fst p) (fst q) = Inr (upvotes (snd p) < upvotes (snd q))"
    by (simp add: py_lt_key_ok)
  with Cons show ?case by auto
qed

lemma sort_desc_sort_key:
  "list_all key_ok ps \<Longrightarrow> sort_desc ps = Inr (sort_key (\<lambda>q. - upvotes (snd q)) ps)"
proof (induction ps)
  case Nil
  show ?case by simp
next
  case (Cons p ps)
  then have "list_all key_ok (sort_key (\<lambda>q. - upvotes (snd q)) ps)"
    by (simp add: list_all_iff)
  with Cons show ?case by (simp add: insert_desc_insort)
qed

lemma map_snd_insort_key:
  "map snd (insort_key (\<lambda>q. g (snd q)) p ps) = insort_key g (snd p) (map snd ps)"
  by (induction ps) simp_all

lemma map_snd_sort_key:
  "map snd (sort_key (\<lambda>q. g (snd q)) ps) = sort_key g (map snd ps)"
  by (induction ps) (simp_all add: map_snd_insort_key)

lemma map_exn_keys:
  "list_all counted data \<Longrightarrow>
   \<exists>ks. map_exn (\<lambda>x. dict_get x ''upvotes'' (JInt 0)) data = Inr ks
        \<and> length ks = length data \<and> list_all key_ok (zip ks data)"
proof (induction data)
  case Nil
  show ?case by simp
next
  case (Cons x data)
  then obtain ks where ks: "map_exn (\<lambda>x. dict_get x ''upvotes'' (JInt 0)) data = Inr ks"
      "length ks = length data" "list_all key_ok (zip ks data)" by auto
  from Cons.prems obtain v i where v: "dict_get x ''upvotes'' (JInt 0) = Inr v" "num_of v = Some i"
    by (auto simp: counted_def split: sum.splits)
  then have "key_ok (v, x)" by (simp add: key_ok_def upvotes_def)
  with ks v show ?case by simp
qed

lemma sorted_reverse_upvotes:
  assumes "list_all counted data"
  shows "sorted_reverse (\<lambda>x. dict_get x ''upvotes'' (JInt 0)) data =
           Inr (sort_key (\<lambda>x. - upvotes x) data)"
proof -
  from map_exn_keys [OF assms] obtain ks where
    ks: "map_exn (\<lambda>x. dict_get x ''upvotes'' (JInt 0)) data = Inr ks"
      "length ks = length data" "list_all key_ok (zip ks data)" by blast
  have "map snd (sort_key (\<lambda>q. - upvotes (snd q)) (zip ks data)) =
        sort_key (\<lambda>x. - upvotes x) (map snd (zip ks data))"
    by (rule map_snd_sort_key)
  with ks show ?thesis by (simp add: sorted_reverse_def sort_desc_sort_key)
qed

lemma map_papers_acc:
  "list_all (\<lambda>x. trending_record to_str x \<noteq> None) xs \<Longrightarrow>
   map_papers to_str xs acc = Inr (acc @ map (\<lambda>x. the (trending_record to_str x)) xs)"
proof (induction xs arbitrary: acc)
  case Nil
  show ?case by simp
next
  case (Cons x xs)
  from Cons.prems have "trending_record to_str x \<noteq> None" by simp
  then obtain info p where "dict_get x ''paper'' (JDict []) = Inr info" "truthy info"
     "hf_paper to_str info = Inr p" "trending_record to_str x = Some p"
    by (auto simp: trending_record_def split: sum.splits if_splits)
  with Cons show ?case by simp
qed


lemma hf_papers_of_sorted:
  assumes "json_body resp = Inr (JList data)"
      and "list_all (\<lambda>x. counted x \<and> trending_record (str_of env) x \<noteq> None) data"
      and "0 \<le> n"
  shows "hf_papers_of env n resp =
           Inr (map (\<lambda>x. the (trending_record (str_of env) x))
                  (take (nat n) (sort_key (\<lambda>x. - upvotes x) data)))"
proof -
  let ?sorted = "sort_key (\<lambda>x. - upvotes x) data"
  from assms(2) have c: "list_all counted data"
    and t: "list_all (\<lambda>x. trending_record (str_of env) x \<noteq> None) data"
    by (simp_all add: list_all_iff)
  from t have "list_all (\<lambda>x. trending_record (str_of env) x \<noteq> None) (take (nat n) ?sorted)"
    by (auto simp: list_all_iff dest: in_set_takeD)
  then have "map_papers (str_of env) (take (nat n) ?sorted) [] =
      Inr ([] @ map (\<lambda>x. the (trending_record (str_of env) x)) (take (nat n) ?sorted))"
    by (rule map_papers_acc)
  with assms(1,3) show ?thesis
    by (simp add: hf_papers_of_def sorted_reverse_upvotes [OF c] slice_to_def)
qed

text \<open>
  C5. When the response kept is a list of trending papers (dictionaries whose upvote count,
  if present, is a number, each with a non-empty \<open>paper\<close> dictionary) and the maximal
  count \<open>n\<close> is not negative, the Trending Paper Fetcher returns the records of the first
  \<open>n\<close> elements of the list sorted by descending upvote count (stably: elements with equal
  counts keep their order), in that order.
\<close>

theorem trending_sorted_by_upvotes:
  assumes "hf_request env (print LogFetchingHF w) = (Inr resp, w1)"
      and "json_body resp = Inr (JList data)"
      and "list_all (\<lambda>x. counted x \<and> trending_record (str_of env) x \<noteq> None) data"
      and "0 \<le> n"
  shows "map Some (fst (get_huggingface_daily_papers env n w)) =
           map (trending_record (str_of env)) (take (nat n) (sort_key (\<lambda>x. - upvotes x) data))"
proof -
  let ?top = "take (nat n) (sort_key (\<lambda>x. - upvotes x) data)"
  have "fst (get_huggingface_daily_papers env n w) =
      map (\<lambda>x. the (trending_record (str_of env) x)) ?top"
    using assms(1) hf_papers_of_sorted [OF assms(2,3,4)]
    by (simp add: get_huggingface_daily_papers_def hf_try_def)
  moreover have "\<forall>x\<in>set ?top. trending_record (str_of env) x \<noteq> None"
    using assms(3) by (auto simp: list_all_iff dest: in_set_takeD)
  ultimately show ?thesis by auto
qed

section \<open>The retry of the trending request\<close>

lemma print_calls: "calls (print l w) = calls w"
  by (simp add: print_def)



section \<open>The trending fetcher catches its exceptions\<close>

text \<open>
  C7. When the body of the \<open>try\<close> raises an exception (a request, \<open>resp.json()\<close>, the
  sort or the mapping into records), the Trending Paper Fetcher returns the empty list and
  prints the failure; its result is a list in every case.
\<close>

theorem trending_fetch_fails_soft:
  assumes "fst (hf_try env n (print LogFetchingHF w)) = Inl e"
  shows "fst (get_huggingface_daily_papers env n w) = []
         \<and> stdout (snd (get_huggingface_daily_papers env n w)) =
             stdout (snd (hf_try env n (print LogFetchingHF w))) @ [LogHFFetchFailed e]"
  using assms
  by (cases "hf_try env n (print LogFetchingHF w)")
     (simp add: get_huggingface_daily_papers_def print_def)


section \<open>The trending fetcher on the example inputs\<close>

lemma upvotes_data5: "map upvotes data5 = [3, 9, 1, 7, 2]"
  by (simp add: data5_def item_def upvotes_def dict_get_def)

lemma sorted_data5:
  "take 2 (sort_key (\<lambda>x. - upvotes x) data5) = [item ''2410.2'' ''B'' 9, item ''2410.4'' ''D'' 7]"
  by (simp add: data5_def item_def upvotes_def dict_get_def)

lemma trending_record_item:
  "trending_record to_str (item ident ttl ups) = Some (hf_record ident ttl)"
  by (simp add: trending_record_def item_def hf_record_def hf_paper_def dict_get_def py_format_def)

lemma counted_item: "counted (item ident ttl ups)"
  by (simp add: counted_def item_def dict_get_def)

lemma request_trending:
  "hf_request env_trending (print LogFetchingHF w0) =
     (Inr resp5, call (Get (first_url env_trending w0)) (print LogFetchingHF w0))"
  by (simp add: hf_request_def env_trending_def quiet_env_def resp5_def data5_def Let_def
      first_url_def print_def call_def w0_def)

theorem trending_sorted_by_upvotes_witness:
  "map upvotes data5 = [3, 9, 1, 7, 2]
   \<and> fst (get_huggingface_daily_papers env_trending 2 w0) =
       [hf_record ''2410.2'' ''B'', hf_record ''2410.4'' ''D'']"
proof -
  have body: "json_body resp5 = Inr (JList data5)" by (simp add: resp5_def)
  have wf: "list_all (\<lambda>x. counted x \<and> trending_record (str_of env_trending) x \<noteq> None) data5"
    by (simp add: data5_def counted_item trending_record_item)
  have n: "(0::int) \<le> 2" by simp
  from trending_sorted_by_upvotes [OF request_trending body wf n]
  have "map Some (fst (get_huggingface_daily_papers env_trending 2 w0)) =
      [Some (hf_record ''2410.2'' ''B''), Some (hf_record ''2410.4'' ''D'')]"
    by (simp add: sorted_data5 trending_record_item)
  then have "fst (get_huggingface_daily_papers env_trending 2 w0) =
      [hf_record ''2410.2'' ''B'', hf_record ''2410.4'' ''D'']"
    by (auto simp: map_eq_Cons_conv)
  with upvotes_data5 show ?thesis by simp
qed






lemma try_quiet:
  "fst (hf_try quiet_env 3 (print LogFetchingHF w0)) = Inl (Raised ''connection refused'')"
  by (simp add: hf_try_def hf_request_def quiet_env_def Let_def)

lemma try_bad_json:
  "fst (hf_try env_bad_json 3 (print LogFetchingHF w0)) =
     Inl (Raised ''Expecting value: line 1 column 1 (char 0)'')"
  by (simp add: hf_try_def hf_request_def env_bad_json_def quiet_env_def resp_bad_json_def Let_def)

lemma try_bad_item:
  "fst (hf_try env_bad_item 3 (print LogFetchingHF w0)) = Inl (AttributeError (JStr ''oops'') ''get'')"
  by (simp add: hf_try_def hf_request_def env_bad_item_def quiet_env_def resp_bad_item_def Let_def
      hf_papers_of_def sorted_reverse_def dict_get_def slice_to_def hf_paper_def)

theorem trending_fetch_fails_soft_witness:
  "fst (hf_try quiet_env 3 (print LogFetchingHF w0)) = Inl (Raised ''connection refused'')
   \<and> fst (get_huggingface_daily_papers quiet_env 3 w0) = []
   \<and> fst (hf_try env_bad_json 3 (print LogFetchingHF w0)) =
       Inl (Raised ''Expecting value: line 1 column 1 (char 0)'')
   \<and> fst (get_huggingface_daily_papers env_bad_json 3 w0) = []
   \<and> fst (hf_try env_bad_item 3 (print LogFetchingHF w0)) =
       Inl (AttributeError (JStr ''oops'') ''get'')
   \<and> fst (get_huggingface_daily_papers env_bad_item 3 w0) = []"
  using trending_fetch_fails_soft [OF try_quiet] trending_fetch_fails_soft [OF try_bad_json]
    trending_fetch_fails_soft [OF try_bad_item] try_quiet try_bad_json try_bad_item
  by blast

section \<open>The Cross-Source Deduplicator\<close>

lemma py_lower_str: "is_str (title p) \<Longrightarrow> py_lower lo (title p) = Inr (title_lower lo p)"
  by (cases "title p") (simp_all add: is_str_def py_lower_def title_lower_def)

lemma map_exn_lower:
  "list_all (\<lambda>p. is_str (title p)) ps \<Longrightarrow>
   map_exn (\<lambda>p. py_lower lo (title p)) ps = Inr (map (title_lower lo) ps)"
  by (induction ps) (simp_all add: py_lower_str)

lemma dedup_loop_filter:
  "list_all (\<lambda>p. is_str (title p)) hfs \<Longrightarrow>
   dedup_loop lo existing hfs acc = Inr (acc @ filter (\<lambda>h. title_lower lo h \<notin> existing) hfs)"
proof (induction hfs arbitrary: acc)
  case Nil
  show ?case by simp
next
  case (Cons hf hfs)
  then show ?case by (simp add: py_lower_str)
qed

lemma dedup_filter:
  assumes "list_all (\<lambda>p. is_str (title p)) keyword_papers"
      and "list_all (\<lambda>p. is_str (title p)) trending"
  shows "dedup lo keyword_papers trending =
           Inr (keyword_papers @
                filter (\<lambda>h. title_lower lo h \<notin> title_lower lo ` set keyword_papers) trending)"
  using assms by (simp add: dedup_def map_exn_lower dedup_loop_filter)

text \<open>
  C4. For keyword-sourced and trending papers whose titles are strings, the merged list is
  the keyword-sourced papers, in their order, followed by exactly those trending papers, in
  their order, whose lower-cased title is the lower-cased title of no keyword-sourced
  paper. Lower-casing is \<open>str.lower()\<close>: \<open>lo\<close> is any function, so also the Unicode case
  mapping that \<open>str.lower()\<close> applies to titles that are not ASCII.
\<close>

theorem dedup_keeps_keyword_papers_then_new_trending:
  assumes "list_all (\<lambda>p. is_str (title p)) keyword_papers"
      and "list_all (\<lambda>p. is_str (title p)) trending"
  shows "dedup lo keyword_papers trending =
           Inr (keyword_papers @
                filter (\<lambda>h. title_lower lo h \<notin> title_lower lo ` set keyword_papers) trending)"
  using assms by (rule dedup_filter)

lemma filter_two_positions:
  assumes "i < j" and "j < length xs" and "P (xs ! i)" and "P (xs ! j)"
  shows "\<exists>m n. m < n \<and> n < length (filter P xs) \<and> filter P xs ! m = xs ! i
               \<and> filter P xs ! n = xs ! j"
proof -
  let ?a = "take i xs" and ?ys = "drop (Suc i) xs"
  let ?k = "j - Suc i"
  let ?b = "take ?k ?ys" and ?c = "drop (Suc ?k) ?ys"
  have i: "i < length xs" using assms(1,2) by simp
  have xs: "xs = ?a @ xs ! i # ?ys" using i by (rule id_take_nth_drop)
  have k: "?k < length ?ys" using assms(1,2) by simp
  have ys: "?ys = ?b @ ?ys ! ?k # ?c" using k by (rule id_take_nth_drop)
  have yk: "?ys ! ?k = xs ! j" using assms(1,2) by simp
  have "xs = ?a @ xs ! i # ?b @ xs ! j # ?c" using xs ys yk by metis
  then have f: "filter P xs = filter P ?a @ xs ! i # filter P ?b @ xs ! j # filter P ?c"
    using assms(3,4) by (metis filter.simps(2) filter_append)
  let ?m = "length (filter P ?a)" and ?n = "length (filter P ?a) + Suc (length (filter P ?b))"
  have "?m < ?n" by simp
  moreover have "?n < length (filter P xs)" by (subst f) simp
  moreover have "filter P xs ! ?m = xs ! i" by (subst f) (simp add: nth_append)
  moreover have "filter P xs ! ?n = xs ! j"
    by (subst f) (simp add: nth_append nth_Cons')
  ultimately show ?thesis by blast
qed

text \<open>
  C10. The set of titles the trending papers are compared with is built from the
  keyword-sourced papers before the merge and never grows: two trending papers (at
  positions \<open>i < j\<close>) with the same lower-cased title, which no keyword-sourced paper has,
  are both in the merged list, at two positions \<open>m < n\<close>. Lower-casing is \<open>str.lower()\<close>,
  with \<open>lo\<close> as in C4.
\<close>

theorem dedup_keeps_trending_papers_sharing_a_title:
  assumes "list_all (\<lambda>p. is_str (title p)) keyword_papers"
      and "list_all (\<lambda>p. is_str (title p)) trending"
      and "i < j" and "j < length trending"
      and "title_lower lo (trending ! i) = title_lower lo (trending ! j)"
      and "title_lower lo (trending ! i) \<notin> title_lower lo ` set keyword_papers"
  shows "\<exists>merged m n. dedup lo keyword_papers trending = Inr merged \<and> m < n \<and> n < length merged
           \<and> merged ! m = trending ! i \<and> merged ! n = trending ! j"
proof -
  let ?P = "\<lambda>h. title_lower lo h \<notin> title_lower lo ` set keyword_papers"
  let ?f = "filter ?P trending"
  have "?P (trending ! i)" using assms(6) .
  moreover have "?P (trending ! j)" using assms(5,6) by simp
  ultimately obtain m n where mn: "m < n" "n < length ?f" "?f ! m = trending ! i"
      "?f ! n = trending ! j"
    using filter_two_positions [OF assms(3,4), of ?P] by blast
  let ?l = "length keyword_papers"
  have "dedup lo keyword_papers trending = Inr (keyword_papers @ ?f)"
    using assms(1,2) by (rule dedup_filter)
  moreover have "?l + m < ?l + n" using mn(1) by simp
  moreover have "?l + n < length (keyword_papers @ ?f)" using mn(2) by simp
  moreover have "(keyword_papers @ ?f) ! (?l + m) = trending ! i" using mn(3) by simp
  moreover have "(keyword_papers @ ?f) ! (?l + n) = trending ! j" using mn(4) by simp
  ultimately show ?thesis by blast
qed


section \<open>The deduplicator on the example inputs\<close>

lemma title_kw_foo: "title kw_foo = JStr ''foo bar''"
  by (simp add: kw_foo_def arxiv_paper_def mk_result_def)

lemma title_hf_record: "title (hf_record ident ttl) = JStr ttl"
  by (simp add: hf_record_def)

lemma lower_foo: "lower lo ''Foo Bar'' = ''foo bar''" "lower lo ''foo bar'' = ''foo bar''"
  "lower lo ''Other'' = ''other''" "lower lo ''Twin'' = ''twin''" "lower lo ''TWIN'' = ''twin''"
  by (simp_all add: lower_def lower_char_def is_ascii_def)

lemma title_lower_examples:
  "title_lower lo kw_foo = ''foo bar''" "title_lower lo hf_foo = ''foo bar''"
  "title_lower lo hf_other = ''other''" "title_lower lo hf_twin1 = ''twin''"
  "title_lower lo hf_twin2 = ''twin''"
  by (simp_all add: title_lower_def title_kw_foo title_hf_record lower_foo
      hf_foo_def hf_other_def hf_twin1_def hf_twin2_def)

lemma is_str_examples:
  "is_str (title kw_foo)" "is_str (title hf_foo)" "is_str (title hf_other)"
  "is_str (title hf_twin1)" "is_str (title hf_twin2)"
  by (simp_all add: is_str_def title_kw_foo title_hf_record
      hf_foo_def hf_other_def hf_twin1_def hf_twin2_def)

text \<open>Titles that are not ASCII are compared through \<open>lo\<close>: when it lower-cases
  \<open>ECOLE\<close> with an acute capital E (bytes C3 89) to \<open>ecole\<close> with an acute small e (bytes
  C3 A9), as \<open>str.lower()\<close> does, the trending paper is dropped.\<close>

lemma dedup_non_ascii_title:
  assumes "lo ([CHR 0xC3, CHR 0x89] @ ''COLE'') = [CHR 0xC3, CHR 0xA9] @ ''cole''"
      and "lo ([CHR 0xC3, CHR 0xA9] @ ''cole'') = [CHR 0xC3, CHR 0xA9] @ ''cole''"
  shows "dedup lo
           [arxiv_paper (mk_result ''http://arxiv.org/abs/2410.00010v1'' ''cs.CL'' now0
                           ([CHR 0xC3, CHR 0xA9] @ ''cole''))]
           [hf_record ''2410.10'' ([CHR 0xC3, CHR 0x89] @ ''COLE'')] =
         Inr [arxiv_paper (mk_result ''http://arxiv.org/abs/2410.00010v1'' ''cs.CL'' now0
                             ([CHR 0xC3, CHR 0xA9] @ ''cole''))]"
  using assms
  by (simp add: dedup_def py_lower_def lower_def is_ascii_def arxiv_paper_def mk_result_def
      hf_record_def)

theorem dedup_keeps_keyword_papers_then_new_trending_witness:
  "list_all (\<lambda>p. is_str (title p)) [kw_foo] \<and> list_all (\<lambda>p. is_str (title p)) [hf_foo, hf_other]
   \<and> title (kw_foo) = JStr ''foo bar'' \<and> title hf_foo = JStr ''Foo Bar''
   \<and> dedup (str_lower quiet_env) [kw_foo] [hf_foo, hf_other] = Inr [kw_foo, hf_other]"
proof -
  have k: "list_all (\<lambda>p. is_str (title p)) [kw_foo]" by (simp add: is_str_examples)
  have t: "list_all (\<lambda>p. is_str (title p)) [hf_foo, hf_other]" by (simp add: is_str_examples)
  from dedup_keeps_keyword_papers_then_new_trending [OF k t, of "str_lower quiet_env"]
  have "dedup (str_lower quiet_env) [kw_foo] [hf_foo, hf_other] = Inr [kw_foo, hf_other]"
    by (simp add: title_lower_examples)
  with k t show ?thesis by (simp add: title_kw_foo title_hf_record hf_foo_def)
qed

theorem dedup_keeps_trending_papers_sharing_a_title_witness:
  "list_all (\<lambda>p. is_str (title p)) [kw_foo] \<and> list_all (\<lambda>p. is_str (title p)) [hf_twin1, hf_twin2]
   \<and> (0::nat) < 1 \<and> 1 < length [hf_twin1, hf_twin2]
   \<and> title_lower (str_lower quiet_env) ([hf_twin1, hf_twin2] ! 0) = title_lower (str_lower quiet_env) ([hf_twin1, hf_twin2] ! 1)
   \<and> title_lower (str_lower quiet_env) ([hf_twin1, hf_twin2] ! 0) \<notin> title_lower (str_lower quiet_env) ` set [kw_foo]
   \<and> (\<exists>merged m n. dedup (str_lower quiet_env) [kw_foo] [hf_twin1, hf_twin2] = Inr merged \<and> m < n \<and> n < length merged
           \<and> merged ! m = [hf_twin1, hf_twin2] ! 0 \<and> merged ! n = [hf_twin1, hf_twin2] ! 1)
   \<and> dedup (str_lower quiet_env) [kw_foo] [hf_twin1, hf_twin2] = Inr [kw_foo, hf_twin1, hf_twin2]"
proof -
  have k: "list_all (\<lambda>p. is_str (title p)) [kw_foo]" by (simp add: is_str_examples)
  have t: "list_all (\<lambda>p. is_str (title p)) [hf_twin1, hf_twin2]" by (simp add: is_str_examples)
  have ij: "(0::nat) < 1" by simp
  have j: "1 < length [hf_twin1, hf_twin2]" by simp
  have same: "title_lower (str_lower quiet_env) ([hf_twin1, hf_twin2] ! 0) = title_lower (str_lower quiet_env) ([hf_twin1, hf_twin2] ! 1)"
    by (simp add: title_lower_examples)
  have new: "title_lower (str_lower quiet_env) ([hf_twin1, hf_twin2] ! 0) \<notin> title_lower (str_lower quiet_env) ` set [kw_foo]"
    by (simp add: title_lower_examples)
  note both = dedup_keeps_trending_papers_sharing_a_title [OF k t ij j same new]
  have ev: "dedup (str_lower quiet_env) [kw_foo] [hf_twin1, hf_twin2] = Inr [kw_foo, hf_twin1, hf_twin2]"
    using dedup_filter [OF k t, of "str_lower quiet_env"] by (simp add: title_lower_examples)
  from k t ij j same new both ev show ?thesis by blast
qed

section \<open>The Summarizer falls back on an error string\<close>

lemma summarize_world:
  "snd (summarize_with_ai env paper w) =
     call (Completion MODEL_NAME (build_prompt (str_of env) paper) 30) w"
  by (simp add: summarize_with_ai_def Let_def split: sum.splits list.splits)

lemma summarize_raised:
  "chat_completion env (calls w) (build_prompt (str_of env) paper) = Inl e \<Longrightarrow>
   fst (summarize_with_ai env paper w) = Some (''Summary failed: '' @ str_exn e)"
  by (simp add: summarize_with_ai_def Let_def)

text \<open>
  C8. When the completion request for a paper raises an exception \<open>e\<close>, the Summarizer
  returns the string \<open>Summary failed: \<close> followed by \<open>str(e)\<close>; the run goes on: the main
  loop posts the paper with that string as its description and, unless the post itself
  raises, turns to the remaining papers.
\<close>

theorem summarizer_falls_back_on_exception:
  assumes "chat_completion env (calls w) (build_prompt (str_of env) paper) = Inl e"
  shows "fst (summarize_with_ai env paper w) = Some (''Summary failed: '' @ str_exn e)
       \<and> process_papers env (paper # papers) w =
           (case send_discord_embed env paper (Some (''Summary failed: '' @ str_exn e))
                   (call (Completion MODEL_NAME (build_prompt (str_of env) paper) 30)
                      (print (LogProcessing (title paper)) w)) of
              (Some e', w2) \<Rightarrow> (Some e', w2)
            | (None, w2) \<Rightarrow> process_papers env papers w2)"
proof -
  let ?w1 = "print (LogProcessing (title paper)) w"
  have c: "chat_completion env (calls ?w1) (build_prompt (str_of env) paper) = Inl e"
    using assms by (simp add: print_def)
  have "summarize_with_ai env paper ?w1 =
      (Some (''Summary failed: '' @ str_exn e),
       call (Completion MODEL_NAME (build_prompt (str_of env) paper) 30) ?w1)"
    using summarize_raised [OF c] summarize_world [of env paper ?w1]
    by (metis prod.collapse)
  then show ?thesis using summarize_raised [OF assms] by simp
qed

theorem summarizer_falls_back_on_exception_witness:
  "chat_completion quiet_env (calls w0) (build_prompt (str_of quiet_env) kw_foo) =
     Inl (Raised ''connection refused'')
   \<and> fst (summarize_with_ai quiet_env kw_foo w0) = Some ''Summary failed: connection refused''
   \<and> fst (process_papers quiet_env [kw_foo] w0) = None"
proof -
  have c: "chat_completion quiet_env (calls w0) (build_prompt (str_of quiet_env) kw_foo) =
     Inl (Raised ''connection refused'')"
    by (simp add: quiet_env_def)
  note inst = summarizer_falls_back_on_exception [OF c, of "[]"]
  from inst have s: "fst (summarize_with_ai quiet_env kw_foo w0) =
      Some ''Summary failed: connection refused''" by simp
  from inst have "fst (process_papers quiet_env [kw_foo] w0) = None"
    by (simp add: send_discord_embed_def Let_def quiet_env_def)
  with c s show ?thesis by simp
qed

section \<open>An exception in the keyword phase\<close>

lemma category_ok_color: "category_ok p \<Longrightarrow> color p = 16711680"
  by (auto simp: category_ok_def arxiv_paper_def)

lemma hf_paper_color: "hf_paper to_str info = Inr p \<Longrightarrow> trending_colour p"
  by (auto simp: hf_paper_def trending_colour_def split: sum.splits)

lemma map_papers_color:
  "map_papers to_str xs acc = Inr ps \<Longrightarrow> list_all trending_colour acc \<Longrightarrow>
   list_all trending_colour ps"
proof (induction xs arbitrary: acc)
  case Nil
  then show ?case by simp
next
  case (Cons x xs)
  then show ?case
    by (auto split: sum.splits if_splits dest: hf_paper_color)
qed

lemma hf_papers_of_color:
  "hf_papers_of env n resp = Inr ps \<Longrightarrow> list_all trending_colour ps"
  by (auto simp: hf_papers_of_def split: sum.splits json.splits dest: map_papers_color)

lemma get_hf_color: "list_all trending_colour (fst (get_huggingface_daily_papers env n w))"
  by (auto simp: get_huggingface_daily_papers_def hf_try_def
      split: prod.splits sum.splits dest: hf_papers_of_color)

lemma dedup_loop_subset:
  "dedup_loop lo existing hfs acc = Inr merged \<Longrightarrow> set merged \<subseteq> set acc \<union> set hfs"
proof (induction hfs arbitrary: acc)
  case Nil
  then show ?case by simp
next
  case (Cons hf hfs)
  then show ?case by (fastforce split: sum.splits if_splits)
qed

lemma dedup_nil_subset: "dedup lo [] hfs = Inr merged \<Longrightarrow> set merged \<subseteq> set hfs"
  using dedup_loop_subset [of lo "{}" hfs "[]" merged] by (simp add: dedup_def)

text \<open>
  C9. When the keyword loop raises an exception \<open>e\<close>, having collected the papers of the
  state \<open>st\<close>, the caller catches it: the keyword phase leaves the paper list empty and
  prints the exception, the paper list of the pipeline is built from the trending papers
  alone, and no paper collected before the exception is in it.
\<close>

theorem keyword_phase_exception_discards_collected:
  assumes "keyword_loop env keywords (fetch_init w) = (Some e, st)"
  shows "keyword_phase env keywords w = ([], print (LogArxivModuleError e) (fetch_world st))
       \<and> fst (collect_papers env keywords w) =
           dedup (str_lower env) [] (fst (get_huggingface_daily_papers env 3
                            (print (LogArxivModuleError e) (fetch_world st))))
       \<and> (\<forall>merged. fst (collect_papers env keywords w) = Inr merged
             \<longrightarrow> set merged \<inter> set (collected_papers st) = {})"
proof -
  let ?w1 = "print (LogArxivModuleError e) (fetch_world st)"
  let ?hf = "fst (get_huggingface_daily_papers env 3 ?w1)"
  have kp: "keyword_phase env keywords w = ([], ?w1)"
    using assms by (simp add: keyword_phase_def get_arxiv_papers_by_keywords_def)
  then have cp: "fst (collect_papers env keywords w) = dedup (str_lower env) [] ?hf"
    by (simp add: collect_papers_def split: prod.splits)
  have "list_all category_ok (collected_papers (fetch_init w))"
    by (simp add: fetch_init_def)
  then have "list_all category_ok
      (collected_papers (snd (keyword_loop env keywords (fetch_init w))))"
    by (rule keyword_loop_category)
  then have red: "\<forall>p\<in>set (collected_papers st). color p = 16711680"
    using assms by (simp add: list_all_iff category_ok_color)
  have yellow: "\<forall>p\<in>set ?hf. color p = 16776960"
    using get_hf_color [of env 3 ?w1] by (simp add: list_all_iff trending_colour_def)
  have "set merged \<inter> set (collected_papers st) = {}"
    if "fst (collect_papers env keywords w) = Inr merged" for merged
  proof -
    from that cp have "set merged \<subseteq> set ?hf" by (simp add: dedup_nil_subset)
    with red yellow show ?thesis by fastforce
  qed
  with kp cp show ?thesis by blast
qed


lemma not_skipped_raise: "\<not> skipped seen (Raise e)"
  by (simp add: skipped_def)

lemma raise_loop:
  "fst (keyword_loop env_raise [''RAG'', ''Agents''] (fetch_init w0)) = Some (Raised ''timeout'')"
  "collected_papers (snd (keyword_loop env_raise [''RAG'', ''Agents''] (fetch_init w0))) =
     [arxiv_paper r_a]"
  by (simp_all add: fetch_init_def process_keyword_def scan_results_dropWhile not_skipped_a
      not_skipped_raise env_raise_def quiet_env_def mk_query_def print_def Let_def)

lemma request_raise: "fst (hf_request env_raise w) = Inr resp5"
  by (simp add: hf_request_def env_raise_def quiet_env_def resp5_def data5_def Let_def)

lemma top3_data5:
  "take 3 (sort_key (\<lambda>x. - upvotes x) data5) =
     [item ''2410.2'' ''B'' 9, item ''2410.4'' ''D'' 7, item ''2410.1'' ''A'' 3]"
  by (simp add: data5_def item_def upvotes_def dict_get_def)

lemma get_hf_raise:
  "fst (get_huggingface_daily_papers env_raise 3 w) =
     [hf_record ''2410.2'' ''B'', hf_record ''2410.4'' ''D'', hf_record ''2410.1'' ''A'']"
proof -
  have body: "json_body resp5 = Inr (JList data5)" by (simp add: resp5_def)
  have wf: "list_all (\<lambda>x. counted x \<and> trending_record (str_of env_raise) x \<noteq> None) data5"
    by (simp add: data5_def counted_item trending_record_item)
  have "hf_papers_of env_raise 3 resp5 =
      Inr [hf_record ''2410.2'' ''B'', hf_record ''2410.4'' ''D'', hf_record ''2410.1'' ''A'']"
    using hf_papers_of_sorted [OF body wf, of 3] by (simp add: top3_data5 trending_record_item)
  then show ?thesis
    using request_raise [of "print LogFetchingHF w"]
    by (cases "hf_request env_raise (print LogFetchingHF w)")
       (simp add: get_huggingface_daily_papers_def hf_try_def)
qed

theorem keyword_phase_exception_discards_collected_witness:
  "fst (keyword_loop env_raise [''RAG'', ''Agents''] (fetch_init w0)) = Some (Raised ''timeout'')
   \<and> collected_papers (snd (keyword_loop env_raise [''RAG'', ''Agents''] (fetch_init w0))) =
       [arxiv_paper r_a]
   \<and> fst (keyword_phase env_raise [''RAG'', ''Agents''] w0) = []
   \<and> fst (collect_papers env_raise [''RAG'', ''Agents''] w0) =
       Inr [hf_record ''2410.2'' ''B'', hf_record ''2410.4'' ''D'', hf_record ''2410.1'' ''A'']
   \<and> set [hf_record ''2410.2'' ''B'', hf_record ''2410.4'' ''D'', hf_record ''2410.1'' ''A'']
       \<inter> set [arxiv_paper r_a] = {}"
proof -
  let ?st = "snd (keyword_loop env_raise [''RAG'', ''Agents''] (fetch_init w0))"
  let ?top = "[hf_record ''2410.2'' ''B'', hf_record ''2410.4'' ''D'', hf_record ''2410.1'' ''A'']"
  have kl: "keyword_loop env_raise [''RAG'', ''Agents''] (fetch_init w0) =
      (Some (Raised ''timeout''), ?st)"
    using raise_loop(1) by (metis prod.collapse)
  note inst = keyword_phase_exception_discards_collected [OF kl]
  have strs: "list_all (\<lambda>p. is_str (title p)) ?top"
    by (simp add: is_str_def title_hf_record)
  have d: "dedup (str_lower env_raise) [] ?top = Inr ?top"
    using dedup_filter [of "[]" ?top "str_lower env_raise"] strs by simp
  from inst have kp: "fst (keyword_phase env_raise [''RAG'', ''Agents''] w0) = []" by simp
  from inst d have cp: "fst (collect_papers env_raise [''RAG'', ''Agents''] w0) = Inr ?top"
    by (simp add: get_hf_raise)
  with inst have "set ?top \<inter> set (collected_papers ?st) = {}" by blast
  then have "set ?top \<inter> set [arxiv_paper r_a] = {}" by (simp only: raise_loop(2))
  with raise_loop kp cp show ?thesis by blast
qed

end
